theory Spec2Isabelle
  imports Main
begin

section \<open>Errors\<close>

text \<open>
  Go error values. The first six constructors are the sentinels of the domain package
  (\<^verbatim>\<open>ErrTokenInvalid\<close> ... \<^verbatim>\<open>ErrOTPInvalid\<close>); \<open>ErrEmailNotConfirmed\<close> is the
  sentinel the store handler compares against, \<open>ErrOpenFile\<close> ... \<open>ErrCloudflareFailed\<close>
  are the sentinels of the client package. \<open>External\<close> is an error made outside these
  packages (a store client's connection error, a context deadline, a file system
  error), \<open>Wrapped\<close> is \<^verbatim>\<open>fmt.Errorf("...: %w", err)\<close>, and \<open>ValidationError\<close> is the
  token library's error with its inner error and its list of flags.
\<close>

datatype vflag =
    ValidationErrorMalformed
  | ValidationErrorUnverifiable
  | ValidationErrorSignatureInvalid
  | ValidationErrorClaimsInvalid

datatype error =
    ErrTokenInvalid
  | ErrSessionNotFound
  | ErrorUnexpectedMethod
  | ErrTokenNotFoundInContext
  | ErrOTPNotFound
  | ErrOTPInvalid
  | ErrEmailNotConfirmed
  | ErrOpenFile
  | ErrCreateFormFile
  | ErrCopyFile
  | ErrCloseWriter
  | ErrCreateRequest
  | ErrSendRequest
  | ErrReadResponse
  | ErrDecodeJSON
  | ErrUploadFailed
  | ErrCloudflareFailed
  | External string
  | Wrapped string error
  | ValidationError "error option" "vflag list"

text \<open>\<^verbatim>\<open>errors.Is(err, target)\<close>: the error itself or one it wraps.\<close>

fun errors_Is :: "error \<Rightarrow> error \<Rightarrow> bool" where
  "errors_Is (Wrapped m e) target = (Wrapped m e = target \<or> errors_Is e target)"
| "errors_Is e target = (e = target)"

datatype panic =
    ServiceNotFound string
  | NilDereference
  | IndexOutOfRange nat nat

section \<open>HTTP, sessions and the request context\<close>

definition StatusOK :: nat where "StatusOK = 200"
definition StatusUnauthorized :: nat where "StatusUnauthorized = 401"
definition StatusForbidden :: nat where "StatusForbidden = 403"
definition StatusInternalServerError :: nat where "StatusInternalServerError = 500"

record ProblemDetail =
  Status :: nat
  Title :: string
  Detail :: string

record Session =
  Token :: string
  Name :: string
  UserID :: string
  Email :: string
  AvatarURL :: string

datatype contextKey = ContextKey string

definition UserKey :: contextKey where
  "UserKey = ContextKey ''user''"

type_synonym Context = "contextKey \<rightharpoonup> Session"

definition context_WithValue :: "Context \<Rightarrow> contextKey \<Rightarrow> Session \<Rightarrow> Context" where
  "context_WithValue parent k v = parent(k \<mapsto> v)"

record Request =
  Header :: "string \<rightharpoonup> string list"
  Ctx :: Context

text \<open>\<^verbatim>\<open>Header.Get\<close>: the first value of the key, the empty string when there is none.\<close>

definition Header_Get :: "(string \<rightharpoonup> string list) \<Rightarrow> string \<Rightarrow> string" where
  "Header_Get h k = (case h k of None \<Rightarrow> '''' | Some [] \<Rightarrow> '''' | Some (v # _) \<Rightarrow> v)"

definition Request_WithContext :: "Request \<Rightarrow> Context \<Rightarrow> Request" where
  "Request_WithContext r c = r\<lparr>Ctx := c\<rparr>"

section \<open>The token library\<close>

datatype SigningMethod =
    SigningMethodECDSA string
  | SigningMethodHMAC string
  | SigningMethodRSA string
  | SigningMethodRSAPSS string
  | SigningMethodNone

datatype PublicKey = PublicKey int int

record jwt_Token =
  Raw :: string
  Method :: SigningMethod
  Claims :: "(string \<times> string) list"
  Signature :: string
  Valid :: bool

section \<open>Collaborators\<close>

text \<open>
  The services the middleware resolves from the injector, with the methods it calls.
  \<open>GetUser\<close> returns the session or an error (a nil session together with a nil error
  is not considered); \<open>CheckEmailConfirmation\<close> returns \<open>None\<close> for Go's nil error.
  Both receive the context of the request.
\<close>

record SessionService =
  GetUser :: "Context \<Rightarrow> string \<Rightarrow> error + Session"

record UserService =
  CheckEmailConfirmation :: "Context \<Rightarrow> string \<Rightarrow> error option"

record Injector =
  provided_UserSessionService :: "SessionService option"
  provided_UserService :: "UserService option"

text \<open>\<^verbatim>\<open>do.MustInvoke\<close> panics when the service is not registered.\<close>

definition MustInvoke_UserSessionService :: "Injector \<Rightarrow> panic + SessionService" where
  "MustInvoke_UserSessionService i =
     (case provided_UserSessionService i of
        None \<Rightarrow> Inl (ServiceNotFound ''domain.UserSessionService'')
      | Some svc \<Rightarrow> Inr svc)"

definition MustInvoke_UserService :: "Injector \<Rightarrow> panic + UserService" where
  "MustInvoke_UserService i =
     (case provided_UserService i of
        None \<Rightarrow> Inl (ServiceNotFound ''domain.UserService'')
      | Some svc \<Rightarrow> Inr svc)"

text \<open>
  The util and config packages and the primitives of the token library are outside the
  sources at hand; the middleware takes them from this environment:
  \<open>ExtractToken\<close> (which reads the request of the echo context) and \<open>LoadPublicKey\<close>
  of util, \<open>SecretKeyPath\<close> of the configuration,
  and the library's decoding of the token string (\<open>ParseUnverified\<close>), its validation of
  the claims (\<open>Claims_Valid\<close>) and its signature check (\<open>Method_Verify\<close>).
\<close>

record Env =
  SecretKeyPath :: string
  ExtractToken :: "Request \<Rightarrow> error + string"
  LoadPublicKey :: "string \<Rightarrow> error + PublicKey"
  ParseUnverified :: "string \<Rightarrow> error + jwt_Token"
  Claims_Valid :: "jwt_Token \<Rightarrow> error option"
  Method_Verify :: "jwt_Token \<Rightarrow> PublicKey \<Rightarrow> error option"

text \<open>
  \<^verbatim>\<open>jwt.Parse(tokenString, keyFunc)\<close> of the token library, by its control flow:
  decode the three segments; ask \<open>keyFunc\<close> for the key and stop when it fails; validate
  the claims; verify the signature with the key; the token is marked valid and the error
  is nil only when no flag was raised. The result is Go's pair (token, err).
\<close>

definition jwt_Parse ::
  "Env \<Rightarrow> string \<Rightarrow> (jwt_Token \<Rightarrow> error + PublicKey) \<Rightarrow> jwt_Token option \<times> error option" where
  "jwt_Parse env tokenString keyFunc =
     (case ParseUnverified env tokenString of
        Inl err \<Rightarrow> (None, Some err)
      | Inr token \<Rightarrow>
          (case keyFunc token of
             Inl err \<Rightarrow>
               (Some token,
                Some (case err of
                        ValidationError inner flags \<Rightarrow> err
                      | _ \<Rightarrow> ValidationError (Some err) [ValidationErrorUnverifiable]))
           | Inr key \<Rightarrow>
               (let vErr1 = (case Claims_Valid env token of
                               None \<Rightarrow> (None, [])
                             | Some (ValidationError inner flags) \<Rightarrow> (inner, flags)
                             | Some e \<Rightarrow> (Some e, [ValidationErrorClaimsInvalid]));
                    vErr2 = (case Method_Verify env token key of
                               None \<Rightarrow> vErr1
                             | Some e \<Rightarrow> (Some e, snd vErr1 @ [ValidationErrorSignatureInvalid]))
                in if snd vErr2 = []
                   then (Some (token\<lparr>Valid := True\<rparr>), None)
                   else (Some token, Some (ValidationError (fst vErr2) (snd vErr2))))))"

section \<open>The middleware\<close>

text \<open>
  One request passing through a middleware: the request held by the echo context
  (\<^verbatim>\<open>ctx.Request()\<close>, replaced by \<^verbatim>\<open>ctx.SetRequest\<close>), the responses written with
  \<^verbatim>\<open>ctx.JSON\<close>, the requests the protected handler \<^verbatim>\<open>next\<close> was invoked with, and the
  calls made to the collaborators, each list in order.
\<close>

datatype call =
    CallExtractToken
  | CallLoadPublicKey string
  | CallParse string
  | CallGetUser string
  | CallCheckEmailConfirmation string

record exchange =
  req :: Request
  sent :: "(nat \<times> ProblemDetail) list"
  served :: "Request list"
  calls :: "call list"

definition ctx_JSON :: "nat \<Rightarrow> ProblemDetail \<Rightarrow> exchange \<Rightarrow> exchange" where
  "ctx_JSON code body s = s\<lparr>sent := sent s @ [(code, body)]\<rparr>"

definition ctx_SetRequest :: "Request \<Rightarrow> exchange \<Rightarrow> exchange" where
  "ctx_SetRequest r s = s\<lparr>req := r\<rparr>"

definition next_handler :: "exchange \<Rightarrow> exchange" where
  "next_handler s = s\<lparr>served := served s @ [req s]\<rparr>"

definition called :: "call \<Rightarrow> exchange \<Rightarrow> exchange" where
  "called c s = s\<lparr>calls := calls s @ [c]\<rparr>"

text \<open>
  The key function both middlewares hand to \<^verbatim>\<open>jwt.Parse\<close>; \<open>is_SigningMethodECDSA\<close>
  is the type assertion of \<^verbatim>\<open>token.Method\<close> to a pointer to \<^verbatim>\<open>jwt.SigningMethodECDSA\<close>.
\<close>

fun is_SigningMethodECDSA :: "SigningMethod \<Rightarrow> bool" where
  "is_SigningMethodECDSA (SigningMethodECDSA alg) = True"
| "is_SigningMethodECDSA m = False"

definition keyFunc :: "PublicKey \<Rightarrow> jwt_Token \<Rightarrow> error + PublicKey" where
  "keyFunc publicKey token =
     (if \<not> is_SigningMethodECDSA (Method token) then Inl ErrorUnexpectedMethod
      else Inr publicKey)"

definition CheckLoggedIn :: "Env \<Rightarrow> Injector \<Rightarrow> exchange \<Rightarrow> panic + exchange" where
  "CheckLoggedIn env i s0 =
     (case MustInvoke_UserSessionService i of Inl p \<Rightarrow> Inl p | Inr userSession \<Rightarrow>
     (case MustInvoke_UserService i of Inl p \<Rightarrow> Inl p | Inr userService \<Rightarrow>
      let authorizationHeader = Header_Get (Header (req s0)) ''Authorization'' in
      if authorizationHeader = '''' then
        Inr (ctx_JSON StatusUnauthorized
              \<lparr>Status = StatusUnauthorized,
               Title = ''Access Denied'',
               Detail = ''You need to be logged in to access this resource.''\<rparr> s0)
      else
      let s1 = called CallExtractToken s0 in
      (case ExtractToken env (req s1) of
         Inl err \<Rightarrow>
           Inr (ctx_JSON StatusUnauthorized
                 \<lparr>Status = StatusUnauthorized,
                  Title = ''Invalid Session'',
                  Detail = ''Your session is invalid or missing. Please log in again.''\<rparr> s1)
       | Inr tokenString \<Rightarrow>
      let s2 = called (CallLoadPublicKey (SecretKeyPath env)) s1 in
      (case LoadPublicKey env (SecretKeyPath env) of
         Inl err \<Rightarrow>
           Inr (ctx_JSON StatusInternalServerError
                 \<lparr>Status = StatusInternalServerError,
                  Title = ''Internal Server Error'',
                  Detail = ''Failed to load public key for token verification.''\<rparr> s2)
       | Inr publicKey \<Rightarrow>
      let s3 = called (CallParse tokenString) s2 in
      (case jwt_Parse env tokenString (keyFunc publicKey) of
         (tok, Some err) \<Rightarrow>
           Inr (ctx_JSON StatusUnauthorized
                 \<lparr>Status = StatusUnauthorized,
                  Title = ''Invalid Session'',
                  Detail = ''Your session is invalid. Please log in again.''\<rparr> s3)
       | (None, None) \<Rightarrow> Inl NilDereference
       | (Some token, None) \<Rightarrow>
      if \<not> Valid token then
        Inr (ctx_JSON StatusUnauthorized
              \<lparr>Status = StatusUnauthorized,
               Title = ''Invalid Session'',
               Detail = ''Your session is invalid. Please log in again.''\<rparr> s3)
      else
      let s4 = called (CallGetUser tokenString) s3 in
      (case GetUser userSession (Ctx (req s4)) tokenString of
         Inl err \<Rightarrow>
           if errors_Is err ErrSessionNotFound then
             Inr (ctx_JSON StatusForbidden
                   \<lparr>Status = StatusForbidden,
                    Title = ''Session Expired'',
                    Detail = ''Your session has expired. Please log in again to continue.''\<rparr> s4)
           else
             Inr (ctx_JSON StatusUnauthorized
                   \<lparr>Status = StatusUnauthorized,
                    Title = ''Unauthorized Access'',
                    Detail = ''Your session is invalid. Please log in again.''\<rparr> s4)
       | Inr user \<Rightarrow>
      let s5 = called (CallCheckEmailConfirmation (Email user)) s4 in
      (case CheckEmailConfirmation userService (Ctx (req s5)) (Email user) of
         Some err \<Rightarrow>
           Inr (ctx_JSON StatusForbidden
                 \<lparr>Status = StatusForbidden,
                  Title = ''Email Not Confirmed'',
                  Detail = ''You need to confirm your email address before accessing this resource.''\<rparr> s5)
       | None \<Rightarrow>
           Inr (next_handler
                 (ctx_SetRequest
                   (Request_WithContext (req s5) (context_WithValue (Ctx (req s5)) UserKey user))
                   s5)))))))))"

definition ConfirmPassword :: "Env \<Rightarrow> Injector \<Rightarrow> exchange \<Rightarrow> panic + exchange" where
  "ConfirmPassword env i s0 =
     (case MustInvoke_UserSessionService i of Inl p \<Rightarrow> Inl p | Inr userSession \<Rightarrow>
      let authorizationHeader = Header_Get (Header (req s0)) ''Authorization'' in
      if authorizationHeader = '''' then
        Inr (ctx_JSON StatusUnauthorized
              \<lparr>Status = StatusUnauthorized,
               Title = ''Access Denied'',
               Detail = ''You need to be logged in to access this resource.''\<rparr> s0)
      else
      let s1 = called CallExtractToken s0 in
      (case ExtractToken env (req s1) of
         Inl err \<Rightarrow>
           Inr (ctx_JSON StatusUnauthorized
                 \<lparr>Status = StatusUnauthorized,
                  Title = ''Invalid Session'',
                  Detail = ''Your session is invalid or missing. Please log in again.''\<rparr> s1)
       | Inr tokenString \<Rightarrow>
      let s2 = called (CallLoadPublicKey (SecretKeyPath env)) s1 in
      (case LoadPublicKey env (SecretKeyPath env) of
         Inl err \<Rightarrow>
           Inr (ctx_JSON StatusInternalServerError
                 \<lparr>Status = StatusInternalServerError,
                  Title = ''Internal Server Error'',
                  Detail = ''Failed to verify your account.''\<rparr> s2)
       | Inr publicKey \<Rightarrow>
      let s3 = called (CallParse tokenString) s2 in
      (case jwt_Parse env tokenString (keyFunc publicKey) of
         (tok, Some err) \<Rightarrow>
           Inr (ctx_JSON StatusUnauthorized
                 \<lparr>Status = StatusUnauthorized,
                  Title = ''Invalid Session'',
                  Detail = ''Your session is invalid. Please log in again.''\<rparr> s3)
       | (None, None) \<Rightarrow> Inl NilDereference
       | (Some token, None) \<Rightarrow>
      if \<not> Valid token then
        Inr (ctx_JSON StatusUnauthorized
              \<lparr>Status = StatusUnauthorized,
               Title = ''Invalid Session'',
               Detail = ''Your session is invalid. Please log in again.''\<rparr> s3)
      else
      let s4 = called (CallGetUser tokenString) s3 in
      (case GetUser userSession (Ctx (req s4)) tokenString of
         Inl err \<Rightarrow>
           if errors_Is err ErrSessionNotFound then
             Inr (ctx_JSON StatusForbidden
                   \<lparr>Status = StatusForbidden,
                    Title = ''Session Expired'',
                    Detail = ''Your session has expired. Please log in again to continue.''\<rparr> s4)
           else
             Inr (ctx_JSON StatusUnauthorized
                   \<lparr>Status = StatusUnauthorized,
                    Title = ''Unauthorized Access'',
                    Detail = ''Your session is invalid. Please log in again.''\<rparr> s4)
       | Inr user \<Rightarrow>
           Inr (next_handler
                 (ctx_SetRequest
                   (Request_WithContext (req s4) (context_WithValue (Ctx (req s4)) UserKey user))
                   s4)))))))"

section \<open>The image upload client\<close>

record CloudflareResult =
  ID :: string
  Filename :: string
  Uploaded :: string
  RequireSignedURLs :: bool
  Variants :: "string list"

record CloudflareError =
  Message :: string

record CloudflareResponse =
  Result :: CloudflareResult
  Success :: bool
  Errors :: "CloudflareError list"
  Messages :: "string list"

record http_Response =
  StatusCode :: nat
  Body :: "error + string"

text \<open>
  What the outside world answers to one run of \<open>UploadImage\<close>, step by step: opening
  the image, creating the form file, copying, closing the writer, building the request,
  sending it (\<open>Body\<close> of the response is what \<^verbatim>\<open>io.ReadAll\<close> returns), and decoding
  the body that was read.
\<close>

record UploadIO =
  image_Open :: "error option"
  writer_CreateFormFile :: "error option"
  io_Copy :: "error option"
  writer_Close :: "error option"
  http_NewRequest :: "error option"
  client_Do :: "error + http_Response"
  jsoniter_Unmarshal :: "string \<Rightarrow> error + CloudflareResponse"

text \<open>Indexing a Go slice: out of range is a run-time panic.\<close>

definition slice_index :: "'a list \<Rightarrow> nat \<Rightarrow> panic + 'a" where
  "slice_index xs n = (if n < length xs then Inr (xs ! n) else Inl (IndexOutOfRange n (length xs)))"

definition UploadImage :: "UploadIO \<Rightarrow> panic + (string \<times> error option)" where
  "UploadImage io =
     (case image_Open io of Some err \<Rightarrow> Inr ('''', Some ErrOpenFile) | None \<Rightarrow>
     (case writer_CreateFormFile io of Some err \<Rightarrow> Inr ('''', Some ErrCreateFormFile) | None \<Rightarrow>
     (case io_Copy io of Some err \<Rightarrow> Inr ('''', Some ErrCopyFile) | None \<Rightarrow>
     (case writer_Close io of Some err \<Rightarrow> Inr ('''', Some ErrCloseWriter) | None \<Rightarrow>
     (case http_NewRequest io of Some err \<Rightarrow> Inr ('''', Some ErrCreateRequest) | None \<Rightarrow>
     (case client_Do io of Inl err \<Rightarrow> Inr ('''', Some ErrSendRequest) | Inr resp \<Rightarrow>
     (case Body resp of Inl err \<Rightarrow> Inr ('''', Some ErrReadResponse) | Inr respBody \<Rightarrow>
      if StatusCode resp \<noteq> StatusOK then Inr ('''', Some ErrUploadFailed)
      else
     (case jsoniter_Unmarshal io respBody of
        Inl err \<Rightarrow> Inr ('''', Some ErrDecodeJSON)
      | Inr cloudflareResp \<Rightarrow>
      if \<not> Success cloudflareResp then Inr ('''', Some ErrCloudflareFailed)
      else
     (case slice_index (Variants (Result cloudflareResp)) 0 of
        Inl p \<Rightarrow> Inl p
      | Inr imageURL \<Rightarrow> Inr (imageURL, None))))))))))"

section \<open>The token codec\<close>

text \<open>
  Modelled from the spec: the Token Codec (\<open>Issue\<close>, \<open>Verify\<close>). The code that issues
  tokens (the session service and the token helpers of util) is not among the sources;
  the definitions follow section 4.2 of the spec. A token carries the signing method, the
  subject identifier, issued-at and the expiry, which is issued-at plus the validity, and a
  signature over these three. \<open>Verify\<close> checks the signing method family first, then
  the expiry (expiry \<open>\<le>\<close> now is expired, whatever the signature), then the signature,
  and returns the subject identifier. The signature scheme is a parameter: \<open>sign\<close> (with
  the private key) and \<open>check\<close> (with the public key). Tokens are kept structured; the
  encoding to and from a string is left out.
\<close>

datatype codec_failure = TokenInvalid | TokenExpired | UnexpectedSigningMethod

record BearerToken =
  alg :: SigningMethod
  subject :: string
  issued_at :: int
  expiry :: int
  signature :: string

record Codec =
  curve :: string
  sign :: "string \<times> int \<times> int \<Rightarrow> string"
  check :: "string \<times> int \<times> int \<Rightarrow> string \<Rightarrow> bool"

definition Issue :: "Codec \<Rightarrow> int \<Rightarrow> string \<Rightarrow> int \<Rightarrow> BearerToken" where
  "Issue codec now subjectID validity =
     \<lparr>alg = SigningMethodECDSA (curve codec),
      subject = subjectID,
      issued_at = now,
      expiry = now + validity,
      signature = sign codec (subjectID, now, now + validity)\<rparr>"

definition Verify :: "Codec \<Rightarrow> int \<Rightarrow> BearerToken \<Rightarrow> codec_failure + string" where
  "Verify codec now token =
     (if \<not> is_SigningMethodECDSA (alg token) then Inl UnexpectedSigningMethod
      else if expiry token \<le> now then Inl TokenExpired
      else if \<not> check codec (subject token, issued_at token, expiry token) (signature token)
      then Inl TokenInvalid
      else Inr (subject token))"

section \<open>Sample collaborators and requests\<close>

text \<open>Concrete collaborators and requests, used to run the middlewares.\<close>

definition request_anonymous :: Request where
  "request_anonymous = \<lparr>Header = Map.empty, Ctx = Map.empty\<rparr>"

definition request_bearer :: Request where
  "request_bearer =
     \<lparr>Header = [''Authorization'' \<mapsto> [''Bearer abc.def.ghi'']], Ctx = Map.empty\<rparr>"

definition fresh :: "Request \<Rightarrow> exchange" where
  "fresh r = \<lparr>req = r, sent = [], served = [], calls = []\<rparr>"

definition session_alice :: Session where
  "session_alice =
     \<lparr>Token = ''abc.def.ghi'', Name = ''Alice'', UserID = ''7d444840-9dc0-11d1-b245-5ffdce74fad2'',
      Email = ''alice@example.com'', AvatarURL = ''avatars/alice.png''\<rparr>"

definition token_es256 :: "string \<Rightarrow> jwt_Token" where
  "token_es256 raw =
     \<lparr>Raw = raw, Method = SigningMethodECDSA ''ES256'',
      Claims = [(''sub'', ''7d444840-9dc0-11d1-b245-5ffdce74fad2'')],
      Signature = ''ghi'', Valid = False\<rparr>"

definition token_hs256 :: "string \<Rightarrow> jwt_Token" where
  "token_hs256 raw =
     \<lparr>Raw = raw, Method = SigningMethodHMAC ''HS256'',
      Claims = [(''sub'', ''7d444840-9dc0-11d1-b245-5ffdce74fad2'')],
      Signature = ''ghi'', Valid = False\<rparr>"

definition env_sample :: Env where
  "env_sample =
     \<lparr>SecretKeyPath = ''keys/public.pem'',
      ExtractToken = (\<lambda>r. Inr (drop 7 (Header_Get (Header r) ''Authorization''))),
      LoadPublicKey = (\<lambda>path. Inr (PublicKey 3 5)),
      ParseUnverified = (\<lambda>raw. Inr (token_es256 raw)),
      Claims_Valid = (\<lambda>token. None),
      Method_Verify = (\<lambda>token key. None)\<rparr>"

definition env_hs256 :: Env where
  "env_hs256 = env_sample\<lparr>ParseUnverified := (\<lambda>raw. Inr (token_hs256 raw))\<rparr>"

definition env_no_key :: Env where
  "env_no_key =
     env_sample\<lparr>LoadPublicKey :=
       (\<lambda>path. Inl (External ''open keys/public.pem: no such file or directory''))\<rparr>"

definition sessions_live :: SessionService where
  "sessions_live = \<lparr>GetUser = (\<lambda>c token. Inr session_alice)\<rparr>"

definition sessions_absent :: SessionService where
  "sessions_absent = \<lparr>GetUser = (\<lambda>c token. Inl ErrSessionNotFound)\<rparr>"

definition sessions_unreachable :: SessionService where
  "sessions_unreachable =
     \<lparr>GetUser = (\<lambda>c token.
        Inl (External ''dial tcp 127.0.0.1:6379: connect: connection refused''))\<rparr>"

definition users_confirmed :: UserService where
  "users_confirmed = \<lparr>CheckEmailConfirmation = (\<lambda>c email. None)\<rparr>"

definition users_unconfirmed :: UserService where
  "users_unconfirmed = \<lparr>CheckEmailConfirmation = (\<lambda>c email. Some ErrEmailNotConfirmed)\<rparr>"

definition users_unreachable :: UserService where
  "users_unreachable =
     \<lparr>CheckEmailConfirmation = (\<lambda>c email.
        Some (External ''dial tcp 127.0.0.1:3306: connect: connection refused''))\<rparr>"

definition injector :: "SessionService \<Rightarrow> UserService \<Rightarrow> Injector" where
  "injector sessions users =
     \<lparr>provided_UserSessionService = Some sessions, provided_UserService = Some users\<rparr>"

definition response_no_variants :: CloudflareResponse where
  "response_no_variants =
     \<lparr>Result = \<lparr>ID = ''2cdc28f0-017a-49c4-9ed7-87056c83901'', Filename = ''logo.png'',
                 Uploaded = ''2024-01-01T00:00:00Z'', RequireSignedURLs = False, Variants = []\<rparr>,
      Success = True, Errors = [], Messages = []\<rparr>"

definition upload_sample :: UploadIO where
  "upload_sample =
     \<lparr>image_Open = None, writer_CreateFormFile = None, io_Copy = None, writer_Close = None,
      http_NewRequest = None,
      client_Do = Inr \<lparr>StatusCode = 200, Body = Inr ''{success: true, result: {variants: []}}''\<rparr>,
      jsoniter_Unmarshal = (\<lambda>respBody. Inr response_no_variants)\<rparr>"

definition codec_sample :: Codec where
  "codec_sample =
     \<lparr>curve = ''ES256'',
      sign = (\<lambda>(subjectID, iat, exp). subjectID @ ''.signed''),
      check = (\<lambda>(subjectID, iat, exp) sig. sig = subjectID @ ''.signed'')\<rparr>"

section \<open>The paths of the middlewares\<close>

lemmas mw_defs = MustInvoke_UserSessionService_def MustInvoke_UserService_def
  ctx_JSON_def called_def next_handler_def ctx_SetRequest_def Request_WithContext_def
  context_WithValue_def StatusUnauthorized_def StatusForbidden_def
  StatusInternalServerError_def Let_def

lemmas sample_defs = request_anonymous_def request_bearer_def fresh_def session_alice_def
  token_es256_def token_hs256_def env_sample_def env_hs256_def env_no_key_def
  sessions_live_def sessions_absent_def sessions_unreachable_def users_confirmed_def
  users_unconfirmed_def users_unreachable_def injector_def Header_Get_def jwt_Parse_def
  keyFunc_def

lemma CheckLoggedIn_key_failure:
  assumes "provided_UserSessionService i = Some userSession"
      and "provided_UserService i = Some userService"
      and "Header_Get (Header (req s)) ''Authorization'' \<noteq> ''''"
      and "ExtractToken env (req s) = Inr tokenString"
      and "LoadPublicKey env (SecretKeyPath env) = Inl err"
  shows "CheckLoggedIn env i s =
           Inr (s\<lparr>sent := sent s @ [(500, \<lparr>Status = 500, Title = ''Internal Server Error'',
                     Detail = ''Failed to load public key for token verification.''\<rparr>)],
                  calls := calls s @ [CallExtractToken, CallLoadPublicKey (SecretKeyPath env)]\<rparr>)"
  using assms by (simp add: CheckLoggedIn_def mw_defs)

lemma ConfirmPassword_key_failure:
  assumes "provided_UserSessionService i = Some userSession"
      and "Header_Get (Header (req s)) ''Authorization'' \<noteq> ''''"
      and "ExtractToken env (req s) = Inr tokenString"
      and "LoadPublicKey env (SecretKeyPath env) = Inl err"
  shows "ConfirmPassword env i s =
           Inr (s\<lparr>sent := sent s @ [(500, \<lparr>Status = 500, Title = ''Internal Server Error'',
                     Detail = ''Failed to verify your account.''\<rparr>)],
                  calls := calls s @ [CallExtractToken, CallLoadPublicKey (SecretKeyPath env)]\<rparr>)"
  using assms by (simp add: ConfirmPassword_def mw_defs)

lemma CheckLoggedIn_parse_error:
  assumes "provided_UserSessionService i = Some userSession"
      and "provided_UserService i = Some userService"
      and "Header_Get (Header (req s)) ''Authorization'' \<noteq> ''''"
      and "ExtractToken env (req s) = Inr tokenString"
      and "LoadPublicKey env (SecretKeyPath env) = Inr publicKey"
      and "jwt_Parse env tokenString (keyFunc publicKey) = (tok, Some err)"
  shows "CheckLoggedIn env i s =
           Inr (s\<lparr>sent := sent s @ [(401, \<lparr>Status = 401, Title = ''Invalid Session'',
                     Detail = ''Your session is invalid. Please log in again.''\<rparr>)],
                  calls := calls s @ [CallExtractToken, CallLoadPublicKey (SecretKeyPath env),
                     CallParse tokenString]\<rparr>)"
  using assms by (simp add: CheckLoggedIn_def mw_defs split: option.split)

lemma ConfirmPassword_parse_error:
  assumes "provided_UserSessionService i = Some userSession"
      and "Header_Get (Header (req s)) ''Authorization'' \<noteq> ''''"
      and "ExtractToken env (req s) = Inr tokenString"
      and "LoadPublicKey env (SecretKeyPath env) = Inr publicKey"
      and "jwt_Parse env tokenString (keyFunc publicKey) = (tok, Some err)"
  shows "ConfirmPassword env i s =
           Inr (s\<lparr>sent := sent s @ [(401, \<lparr>Status = 401, Title = ''Invalid Session'',
                     Detail = ''Your session is invalid. Please log in again.''\<rparr>)],
                  calls := calls s @ [CallExtractToken, CallLoadPublicKey (SecretKeyPath env),
                     CallParse tokenString]\<rparr>)"
  using assms by (simp add: ConfirmPassword_def mw_defs split: option.split)

lemma CheckLoggedIn_GetUser_error:
  assumes "provided_UserSessionService i = Some userSession"
      and "provided_UserService i = Some userService"
      and "Header_Get (Header (req s)) ''Authorization'' \<noteq> ''''"
      and "ExtractToken env (req s) = Inr tokenString"
      and "LoadPublicKey env (SecretKeyPath env) = Inr publicKey"
      and "jwt_Parse env tokenString (keyFunc publicKey) = (Some token, None)"
      and "Valid token"
      and "GetUser userSession (Ctx (req s)) tokenString = Inl err"
  shows "CheckLoggedIn env i s =
           Inr (s\<lparr>sent := sent s @
                    [if errors_Is err ErrSessionNotFound
                     then (403, \<lparr>Status = 403, Title = ''Session Expired'',
                        Detail = ''Your session has expired. Please log in again to continue.''\<rparr>)
                     else (401, \<lparr>Status = 401, Title = ''Unauthorized Access'',
                        Detail = ''Your session is invalid. Please log in again.''\<rparr>)],
                  calls := calls s @ [CallExtractToken, CallLoadPublicKey (SecretKeyPath env),
                     CallParse tokenString, CallGetUser tokenString]\<rparr>)"
  using assms by (simp add: CheckLoggedIn_def mw_defs)

lemma ConfirmPassword_GetUser_error:
  assumes "provided_UserSessionService i = Some userSession"
      and "Header_Get (Header (req s)) ''Authorization'' \<noteq> ''''"
      and "ExtractToken env (req s) = Inr tokenString"
      and "LoadPublicKey env (SecretKeyPath env) = Inr publicKey"
      and "jwt_Parse env tokenString (keyFunc publicKey) = (Some token, None)"
      and "Valid token"
      and "GetUser userSession (Ctx (req s)) tokenString = Inl err"
  shows "ConfirmPassword env i s =
           Inr (s\<lparr>sent := sent s @
                    [if errors_Is err ErrSessionNotFound
                     then (403, \<lparr>Status = 403, Title = ''Session Expired'',
                        Detail = ''Your session has expired. Please log in again to continue.''\<rparr>)
                     else (401, \<lparr>Status = 401, Title = ''Unauthorized Access'',
                        Detail = ''Your session is invalid. Please log in again.''\<rparr>)],
                  calls := calls s @ [CallExtractToken, CallLoadPublicKey (SecretKeyPath env),
                     CallParse tokenString, CallGetUser tokenString]\<rparr>)"
  using assms by (simp add: ConfirmPassword_def mw_defs)

lemma jwt_Parse_unexpected_method:
  assumes "ParseUnverified env tokenString = Inr token"
      and "\<not> is_SigningMethodECDSA (Method token)"
  shows "jwt_Parse env tokenString (keyFunc publicKey) =
           (Some token,
            Some (ValidationError (Some ErrorUnexpectedMethod) [ValidationErrorUnverifiable]))"
  using assms by (simp add: jwt_Parse_def keyFunc_def)

lemma jwt_Parse_never_nil: "jwt_Parse env tokenString kf \<noteq> (None, None)"
  by (simp add: jwt_Parse_def Let_def split: sum.split)

lemma CheckLoggedIn_admit:
  assumes "provided_UserSessionService i = Some userSession"
      and "provided_UserService i = Some userService"
      and "Header_Get (Header (req s)) ''Authorization'' \<noteq> ''''"
      and "ExtractToken env (req s) = Inr tokenString"
      and "LoadPublicKey env (SecretKeyPath env) = Inr publicKey"
      and "jwt_Parse env tokenString (keyFunc publicKey) = (Some token, None)"
      and "Valid token"
      and "GetUser userSession (Ctx (req s)) tokenString = Inr user"
      and "CheckEmailConfirmation userService (Ctx (req s)) (Email user) = None"
  shows "CheckLoggedIn env i s =
           Inr (s\<lparr>req := (req s)\<lparr>Ctx := (Ctx (req s))(UserKey \<mapsto> user)\<rparr>,
                  served := served s @ [(req s)\<lparr>Ctx := (Ctx (req s))(UserKey \<mapsto> user)\<rparr>],
                  calls := calls s @ [CallExtractToken, CallLoadPublicKey (SecretKeyPath env),
                     CallParse tokenString, CallGetUser tokenString,
                     CallCheckEmailConfirmation (Email user)]\<rparr>)"
  using assms by (simp add: CheckLoggedIn_def mw_defs)

lemma ConfirmPassword_admit:
  assumes "provided_UserSessionService i = Some userSession"
      and "Header_Get (Header (req s)) ''Authorization'' \<noteq> ''''"
      and "ExtractToken env (req s) = Inr tokenString"
      and "LoadPublicKey env (SecretKeyPath env) = Inr publicKey"
      and "jwt_Parse env tokenString (keyFunc publicKey) = (Some token, None)"
      and "Valid token"
      and "GetUser userSession (Ctx (req s)) tokenString = Inr user"
  shows "ConfirmPassword env i s =
           Inr (s\<lparr>req := (req s)\<lparr>Ctx := (Ctx (req s))(UserKey \<mapsto> user)\<rparr>,
                  served := served s @ [(req s)\<lparr>Ctx := (Ctx (req s))(UserKey \<mapsto> user)\<rparr>],
                  calls := calls s @ [CallExtractToken, CallLoadPublicKey (SecretKeyPath env),
                     CallParse tokenString, CallGetUser tokenString]\<rparr>)"
  using assms by (simp add: ConfirmPassword_def mw_defs)

lemma CheckLoggedIn_returns:
  assumes "provided_UserSessionService i = Some userSession"
      and "provided_UserService i = Some userService"
  shows "\<exists>r. CheckLoggedIn env i s = Inr r"
  using assms jwt_Parse_never_nil
  by (auto simp add: CheckLoggedIn_def mw_defs split: sum.splits option.splits prod.splits)

lemma ConfirmPassword_returns:
  assumes "provided_UserSessionService i = Some userSession"
  shows "\<exists>r. ConfirmPassword env i s = Inr r"
  using assms jwt_Parse_never_nil
  by (auto simp add: ConfirmPassword_def mw_defs split: sum.splits option.splits prod.splits)

lemma CheckLoggedIn_outcome:
  assumes "CheckLoggedIn env i s = Inr r"
  shows "(served r = served s \<and> req r = req s \<and> (\<exists>answer. sent r = sent s @ [answer]))
       \<or> (sent r = sent s \<and> served r = served s @ [req r]
           \<and> (\<exists>user. req r = (req s)\<lparr>Ctx := (Ctx (req s))(UserKey \<mapsto> user)\<rparr>))"
  using assms
  by (auto simp add: CheckLoggedIn_def mw_defs
      split: sum.splits option.splits prod.splits if_splits)

lemma ConfirmPassword_outcome:
  assumes "ConfirmPassword env i s = Inr r"
  shows "(served r = served s \<and> req r = req s \<and> (\<exists>answer. sent r = sent s @ [answer]))
       \<or> (sent r = sent s \<and> served r = served s @ [req r]
           \<and> (\<exists>user. req r = (req s)\<lparr>Ctx := (Ctx (req s))(UserKey \<mapsto> user)\<rparr>))"
  using assms
  by (auto simp add: ConfirmPassword_def mw_defs
      split: sum.splits option.splits prod.splits if_splits)

section \<open>Claims about the middlewares\<close>

text \<open>
  C1, as the spec states it, fails: with the session store unreachable, \<open>GetUser\<close> fails
  with a connection error (not \<open>ErrSessionNotFound\<close>), and the middleware answers 401
  "Unauthorized Access", not a 500-class status.
\<close>

theorem store_outage_answered_unauthorized:
  "GetUser sessions_unreachable (Ctx request_bearer) ''abc.def.ghi'' =
     Inl (External ''dial tcp 127.0.0.1:6379: connect: connection refused'')
   \<and> \<not> errors_Is (External ''dial tcp 127.0.0.1:6379: connect: connection refused'')
         ErrSessionNotFound
   \<and> CheckLoggedIn env_sample (injector sessions_unreachable users_confirmed)
         (fresh request_bearer) =
       Inr \<lparr>req = request_bearer,
            sent = [(401, \<lparr>Status = 401, Title = ''Unauthorized Access'',
                    Detail = ''Your session is invalid. Please log in again.''\<rparr>)],
            served = [],
            calls = [CallExtractToken, CallLoadPublicKey ''keys/public.pem'',
                     CallParse ''abc.def.ghi'', CallGetUser ''abc.def.ghi'']\<rparr>"
  by (simp add: CheckLoggedIn_def mw_defs sample_defs)

text \<open>
  C1, amended. When the token has passed \<^verbatim>\<open>jwt.Parse\<close> and \<open>GetUser\<close> fails with any
  error that is not \<open>ErrSessionNotFound\<close> (an unreachable store and a timeout included),
  both middlewares answer with status 401 and the title "Unauthorized Access"; the
  protected handler is not invoked and the request is left as it was.
\<close>

theorem session_lookup_failure_unauthorized:
  assumes "provided_UserSessionService i = Some userSession"
      and "provided_UserService i = Some userService"
      and "Header_Get (Header (req s)) ''Authorization'' \<noteq> ''''"
      and "ExtractToken env (req s) = Inr tokenString"
      and "LoadPublicKey env (SecretKeyPath env) = Inr publicKey"
      and "jwt_Parse env tokenString (keyFunc publicKey) = (Some token, None)"
      and "Valid token"
      and "GetUser userSession (Ctx (req s)) tokenString = Inl err"
      and "\<not> errors_Is err ErrSessionNotFound"
  shows "\<exists>r. CheckLoggedIn env i s = Inr r \<and> ConfirmPassword env i s = Inr r
           \<and> sent r = sent s @ [(401, \<lparr>Status = 401, Title = ''Unauthorized Access'',
                 Detail = ''Your session is invalid. Please log in again.''\<rparr>)]
           \<and> served r = served s \<and> req r = req s"
  using CheckLoggedIn_GetUser_error [OF assms(1-8)]
    ConfirmPassword_GetUser_error [OF assms(1) assms(3-8)] assms(9)
  by simp

theorem session_lookup_failure_unauthorized_witness:
  "\<exists>r. CheckLoggedIn env_sample (injector sessions_unreachable users_confirmed)
          (fresh request_bearer) = Inr r
       \<and> ConfirmPassword env_sample (injector sessions_unreachable users_confirmed)
          (fresh request_bearer) = Inr r
       \<and> sent r = [(401, \<lparr>Status = 401, Title = ''Unauthorized Access'',
             Detail = ''Your session is invalid. Please log in again.''\<rparr>)]
       \<and> served r = [] \<and> req r = request_bearer"
  using session_lookup_failure_unauthorized [of "injector sessions_unreachable users_confirmed"
      sessions_unreachable users_confirmed "fresh request_bearer" env_sample "''abc.def.ghi''"
      "PublicKey 3 5" "(token_es256 ''abc.def.ghi'')\<lparr>Valid := True\<rparr>"
      "External ''dial tcp 127.0.0.1:6379: connect: connection refused''"]
  by (auto simp add: sample_defs)

text \<open>
  C2, as the spec states it, fails on the status code: a verified token whose session is
  absent from the store is answered with status 403, not 401.
\<close>

theorem absent_session_answered_forbidden:
  "GetUser sessions_absent (Ctx request_bearer) ''abc.def.ghi'' = Inl ErrSessionNotFound
   \<and> CheckLoggedIn env_sample (injector sessions_absent users_confirmed)
         (fresh request_bearer) =
       Inr \<lparr>req = request_bearer,
            sent = [(403, \<lparr>Status = 403, Title = ''Session Expired'',
                    Detail = ''Your session has expired. Please log in again to continue.''\<rparr>)],
            served = [],
            calls = [CallExtractToken, CallLoadPublicKey ''keys/public.pem'',
                     CallParse ''abc.def.ghi'', CallGetUser ''abc.def.ghi'']\<rparr>"
  by (simp add: CheckLoggedIn_def mw_defs sample_defs)

text \<open>
  C2, amended. When the token has passed \<^verbatim>\<open>jwt.Parse\<close> and \<open>GetUser\<close> fails with
  \<open>ErrSessionNotFound\<close> (alone or wrapped), both middlewares answer with status 403 and
  the title "Session Expired", and the protected handler is not invoked. The response is
  not the one of a token that fails \<^verbatim>\<open>jwt.Parse\<close> (signature, claims or signing method),
  which is status 401 with the title "Invalid Session".
\<close>

theorem session_not_found_forbidden:
  assumes "provided_UserSessionService i = Some userSession"
      and "provided_UserService i = Some userService"
      and "Header_Get (Header (req s)) ''Authorization'' \<noteq> ''''"
      and "ExtractToken env (req s) = Inr tokenString"
      and "LoadPublicKey env (SecretKeyPath env) = Inr publicKey"
  shows "(jwt_Parse env tokenString (keyFunc publicKey) = (Some token, None) \<and> Valid token
            \<and> GetUser userSession (Ctx (req s)) tokenString = Inl err
            \<and> errors_Is err ErrSessionNotFound
          \<longrightarrow> (\<exists>r. CheckLoggedIn env i s = Inr r \<and> ConfirmPassword env i s = Inr r
                 \<and> sent r = sent s @ [(403, \<lparr>Status = 403, Title = ''Session Expired'',
                       Detail = ''Your session has expired. Please log in again to continue.''\<rparr>)]
                 \<and> served r = served s \<and> req r = req s))
       \<and> (jwt_Parse env tokenString (keyFunc publicKey) = (tok, Some perr)
          \<longrightarrow> (\<exists>r. CheckLoggedIn env i s = Inr r \<and> ConfirmPassword env i s = Inr r
                 \<and> sent r = sent s @ [(401, \<lparr>Status = 401, Title = ''Invalid Session'',
                       Detail = ''Your session is invalid. Please log in again.''\<rparr>)]
                 \<and> served r = served s \<and> req r = req s))"
proof (intro conjI impI)
  assume a: "jwt_Parse env tokenString (keyFunc publicKey) = (Some token, None) \<and> Valid token
      \<and> GetUser userSession (Ctx (req s)) tokenString = Inl err
      \<and> errors_Is err ErrSessionNotFound"
  then have p: "jwt_Parse env tokenString (keyFunc publicKey) = (Some token, None)"
    and v: "Valid token"
    and g: "GetUser userSession (Ctx (req s)) tokenString = Inl err"
    and e: "errors_Is err ErrSessionNotFound"
    by simp_all
  show "\<exists>r. CheckLoggedIn env i s = Inr r \<and> ConfirmPassword env i s = Inr r
          \<and> sent r = sent s @ [(403, \<lparr>Status = 403, Title = ''Session Expired'',
                Detail = ''Your session has expired. Please log in again to continue.''\<rparr>)]
          \<and> served r = served s \<and> req r = req s"
    using CheckLoggedIn_GetUser_error [OF assms p v g]
      ConfirmPassword_GetUser_error [OF assms(1) assms(3-5) p v g] e
    by simp
next
  assume p: "jwt_Parse env tokenString (keyFunc publicKey) = (tok, Some perr)"
  show "\<exists>r. CheckLoggedIn env i s = Inr r \<and> ConfirmPassword env i s = Inr r
          \<and> sent r = sent s @ [(401, \<lparr>Status = 401, Title = ''Invalid Session'',
                Detail = ''Your session is invalid. Please log in again.''\<rparr>)]
          \<and> served r = served s \<and> req r = req s"
    using CheckLoggedIn_parse_error [OF assms p] ConfirmPassword_parse_error [OF assms(1) assms(3-5) p]
    by simp
qed

theorem session_not_found_forbidden_witness:
  "(\<exists>r. CheckLoggedIn env_sample (injector sessions_absent users_confirmed)
           (fresh request_bearer) = Inr r
        \<and> ConfirmPassword env_sample (injector sessions_absent users_confirmed)
           (fresh request_bearer) = Inr r
        \<and> sent r = [(403, \<lparr>Status = 403, Title = ''Session Expired'',
              Detail = ''Your session has expired. Please log in again to continue.''\<rparr>)]
        \<and> served r = [] \<and> req r = request_bearer)
   \<and> (\<exists>r. CheckLoggedIn env_hs256 (injector sessions_absent users_confirmed)
           (fresh request_bearer) = Inr r
        \<and> ConfirmPassword env_hs256 (injector sessions_absent users_confirmed)
           (fresh request_bearer) = Inr r
        \<and> sent r = [(401, \<lparr>Status = 401, Title = ''Invalid Session'',
              Detail = ''Your session is invalid. Please log in again.''\<rparr>)]
        \<and> served r = [] \<and> req r = request_bearer)"
proof
  show "\<exists>r. CheckLoggedIn env_sample (injector sessions_absent users_confirmed)
           (fresh request_bearer) = Inr r
        \<and> ConfirmPassword env_sample (injector sessions_absent users_confirmed)
           (fresh request_bearer) = Inr r
        \<and> sent r = [(403, \<lparr>Status = 403, Title = ''Session Expired'',
              Detail = ''Your session has expired. Please log in again to continue.''\<rparr>)]
        \<and> served r = [] \<and> req r = request_bearer"
    using session_not_found_forbidden [of "injector sessions_absent users_confirmed"
        sessions_absent users_confirmed "fresh request_bearer" env_sample "''abc.def.ghi''"
        "PublicKey 3 5" "(token_es256 ''abc.def.ghi'')\<lparr>Valid := True\<rparr>" ErrSessionNotFound]
    by (auto simp add: sample_defs)
  show "\<exists>r. CheckLoggedIn env_hs256 (injector sessions_absent users_confirmed)
           (fresh request_bearer) = Inr r
        \<and> ConfirmPassword env_hs256 (injector sessions_absent users_confirmed)
           (fresh request_bearer) = Inr r
        \<and> sent r = [(401, \<lparr>Status = 401, Title = ''Invalid Session'',
              Detail = ''Your session is invalid. Please log in again.''\<rparr>)]
        \<and> served r = [] \<and> req r = request_bearer"
    using session_not_found_forbidden [of "injector sessions_absent users_confirmed"
        sessions_absent users_confirmed "fresh request_bearer" env_hs256 "''abc.def.ghi''"
        "PublicKey 3 5" _ _ "Some (token_hs256 ''abc.def.ghi'')"
        "ValidationError (Some ErrorUnexpectedMethod) [ValidationErrorUnverifiable]"]
    by (auto simp add: sample_defs)
qed

text \<open>
  C3. A token whose signing method is not of the ECDSA family is refused by the key
  function with \<open>ErrorUnexpectedMethod\<close>, and \<^verbatim>\<open>jwt.Parse\<close> returns that failure as
  unverifiable without validating the claims or checking the signature: the verdict is the
  same whatever the claims validation \<open>cv\<close> and the signature check \<open>mv\<close> would answer.
  Both middlewares then answer with status 401 and the title "Invalid Session"; the
  session is not looked up and the protected handler is not invoked.
\<close>

theorem non_ecdsa_token_rejected:
  assumes "provided_UserSessionService i = Some userSession"
      and "provided_UserService i = Some userService"
      and "Header_Get (Header (req s)) ''Authorization'' \<noteq> ''''"
      and "ExtractToken env (req s) = Inr tokenString"
      and "LoadPublicKey env (SecretKeyPath env) = Inr publicKey"
      and "ParseUnverified env tokenString = Inr token"
      and "\<not> is_SigningMethodECDSA (Method token)"
  shows "jwt_Parse (env\<lparr>Claims_Valid := cv, Method_Verify := mv\<rparr>) tokenString (keyFunc publicKey) =
           (Some token,
            Some (ValidationError (Some ErrorUnexpectedMethod) [ValidationErrorUnverifiable]))
       \<and> (\<exists>r. CheckLoggedIn env i s = Inr r \<and> ConfirmPassword env i s = Inr r
             \<and> sent r = sent s @ [(401, \<lparr>Status = 401, Title = ''Invalid Session'',
                   Detail = ''Your session is invalid. Please log in again.''\<rparr>)]
             \<and> calls r = calls s @ [CallExtractToken, CallLoadPublicKey (SecretKeyPath env),
                   CallParse tokenString]
             \<and> served r = served s \<and> req r = req s)"
proof
  have "ParseUnverified (env\<lparr>Claims_Valid := cv, Method_Verify := mv\<rparr>) tokenString = Inr token"
    using assms(6) by simp
  then show "jwt_Parse (env\<lparr>Claims_Valid := cv, Method_Verify := mv\<rparr>) tokenString
      (keyFunc publicKey) =
      (Some token,
       Some (ValidationError (Some ErrorUnexpectedMethod) [ValidationErrorUnverifiable]))"
    using assms(7) by (rule jwt_Parse_unexpected_method)
next
  have p: "jwt_Parse env tokenString (keyFunc publicKey) =
      (Some token,
       Some (ValidationError (Some ErrorUnexpectedMethod) [ValidationErrorUnverifiable]))"
    using assms(6,7) by (rule jwt_Parse_unexpected_method)
  show "\<exists>r. CheckLoggedIn env i s = Inr r \<and> ConfirmPassword env i s = Inr r
      \<and> sent r = sent s @ [(401, \<lparr>Status = 401, Title = ''Invalid Session'',
            Detail = ''Your session is invalid. Please log in again.''\<rparr>)]
      \<and> calls r = calls s @ [CallExtractToken, CallLoadPublicKey (SecretKeyPath env),
            CallParse tokenString]
      \<and> served r = served s \<and> req r = req s"
    using CheckLoggedIn_parse_error [OF assms(1-5) p]
      ConfirmPassword_parse_error [OF assms(1) assms(3-5) p]
    by simp
qed

theorem non_ecdsa_token_rejected_witness:
  "jwt_Parse (env_hs256\<lparr>Claims_Valid := (\<lambda>t. None), Method_Verify := (\<lambda>t k. None)\<rparr>)
       ''abc.def.ghi'' (keyFunc (PublicKey 3 5)) =
     (Some (token_hs256 ''abc.def.ghi''),
      Some (ValidationError (Some ErrorUnexpectedMethod) [ValidationErrorUnverifiable]))
   \<and> (\<exists>r. CheckLoggedIn env_hs256 (injector sessions_live users_confirmed)
            (fresh request_bearer) = Inr r
         \<and> ConfirmPassword env_hs256 (injector sessions_live users_confirmed)
            (fresh request_bearer) = Inr r
         \<and> sent r = [(401, \<lparr>Status = 401, Title = ''Invalid Session'',
               Detail = ''Your session is invalid. Please log in again.''\<rparr>)]
         \<and> calls r = [CallExtractToken, CallLoadPublicKey ''keys/public.pem'',
               CallParse ''abc.def.ghi'']
         \<and> served r = [] \<and> req r = request_bearer)"
  using non_ecdsa_token_rejected [where i = "injector sessions_live users_confirmed"
      and userSession = sessions_live and userService = users_confirmed
      and s = "fresh request_bearer" and env = env_hs256 and tokenString = "''abc.def.ghi''"
      and publicKey = "PublicKey 3 5" and token = "token_hs256 ''abc.def.ghi''"
      and cv = "\<lambda>t. None" and mv = "\<lambda>t k. None"]
  by (auto simp add: request_bearer_def fresh_def token_hs256_def env_sample_def env_hs256_def
      injector_def Header_Get_def)

text \<open>
  C5. In the middleware with the status check (\<open>CheckLoggedIn\<close>), a live session whose email
  confirmation check fails because the database is unreachable is answered with status
  403 and the title "Email Not Confirmed", as an unconfirmed email is: the middleware
  does not look at which error the check returned.
\<close>

theorem status_check_fault_answered_forbidden:
  "CheckEmailConfirmation users_unreachable (Ctx request_bearer) (Email session_alice) =
     Some (External ''dial tcp 127.0.0.1:3306: connect: connection refused'')
   \<and> CheckLoggedIn env_sample (injector sessions_live users_unreachable)
        (fresh request_bearer) =
      Inr \<lparr>req = request_bearer,
           sent = [(403, \<lparr>Status = 403, Title = ''Email Not Confirmed'',
              Detail = ''You need to confirm your email address before accessing this resource.''\<rparr>)],
           served = [],
           calls = [CallExtractToken, CallLoadPublicKey ''keys/public.pem'',
                    CallParse ''abc.def.ghi'', CallGetUser ''abc.def.ghi'',
                    CallCheckEmailConfirmation ''alice@example.com'']\<rparr>
   \<and> CheckLoggedIn env_sample (injector sessions_live users_unconfirmed)
        (fresh request_bearer) =
      CheckLoggedIn env_sample (injector sessions_live users_unreachable)
        (fresh request_bearer)"
  by (simp add: CheckLoggedIn_def mw_defs sample_defs)

text \<open>
  C6. With the services provided, neither middleware panics, and the two agree on every
  request that \<open>ConfirmPassword\<close> rejects (missing header, token extraction failure, key
  loading failure, \<^verbatim>\<open>jwt.Parse\<close> failure, session lookup failure): \<open>CheckLoggedIn\<close> rejects
  it too, with the same status codes and titles, after the same calls. They differ on the
  requests \<open>ConfirmPassword\<close> admits, and there only by the email confirmation check of
  \<open>CheckLoggedIn\<close>: when the check fails the request is rejected with status 403 and the
  title "Email Not Confirmed", otherwise it is admitted as \<open>ConfirmPassword\<close> admits it,
  with the check as one more call.
\<close>

theorem variants_differ_only_by_email_check:
  assumes "provided_UserSessionService i = Some userSession"
      and "provided_UserService i = Some userService"
  shows "(\<exists>r. ConfirmPassword env i s = Inr r)
       \<and> (\<forall>r. ConfirmPassword env i s = Inr r \<and> served r = served s
          \<longrightarrow> (\<exists>r'. CheckLoggedIn env i s = Inr r'
                 \<and> map (\<lambda>(code, body). (code, Status body, Title body)) (sent r') =
                   map (\<lambda>(code, body). (code, Status body, Title body)) (sent r)
                 \<and> calls r' = calls r \<and> served r' = served r \<and> req r' = req r))
       \<and> (\<forall>r. ConfirmPassword env i s = Inr r \<and> served r \<noteq> served s
          \<longrightarrow> (\<exists>user. Ctx (req r) UserKey = Some user
                 \<and> CheckLoggedIn env i s =
                     (case CheckEmailConfirmation userService (Ctx (req s)) (Email user) of
                        Some err \<Rightarrow>
                          Inr (s\<lparr>sent := sent s @
                                  [(403, \<lparr>Status = 403, Title = ''Email Not Confirmed'',
                                     Detail = ''You need to confirm your email address before accessing this resource.''\<rparr>)],
                                 calls := calls r @ [CallCheckEmailConfirmation (Email user)]\<rparr>)
                      | None \<Rightarrow>
                          Inr (r\<lparr>calls := calls r @ [CallCheckEmailConfirmation (Email user)]\<rparr>))))"
proof (cases "Header_Get (Header (req s)) ''Authorization'' = ''''")
  case True
  with assms show ?thesis
    by (simp add: CheckLoggedIn_def ConfirmPassword_def mw_defs)
next
  case h: False
  show ?thesis
  proof (cases "ExtractToken env (req s)")
    case (Inl err)
    with assms h show ?thesis
      by (simp add: CheckLoggedIn_def ConfirmPassword_def mw_defs)
  next
    case x: (Inr tokenString)
    show ?thesis
    proof (cases "LoadPublicKey env (SecretKeyPath env)")
      case (Inl err)
      with assms h x show ?thesis
        by (simp add: CheckLoggedIn_def ConfirmPassword_def mw_defs)
    next
      case k: (Inr publicKey)
      obtain tok perr where p: "jwt_Parse env tokenString (keyFunc publicKey) = (tok, perr)"
        by (cases "jwt_Parse env tokenString (keyFunc publicKey)")
      show ?thesis
      proof (cases perr)
        case (Some err)
        with assms h x k p show ?thesis
          by (simp add: CheckLoggedIn_def ConfirmPassword_def mw_defs split: option.split)
      next
        case None
        with p jwt_Parse_never_nil [of env tokenString "keyFunc publicKey"]
        obtain token where t: "tok = Some token"
          by (cases tok) auto
        show ?thesis
        proof (cases "Valid token")
          case False
          with assms h x k p None t show ?thesis
            by (simp add: CheckLoggedIn_def ConfirmPassword_def mw_defs)
        next
          case v: True
          show ?thesis
          proof (cases "GetUser userSession (Ctx (req s)) tokenString")
            case (Inl err)
            with assms h x k p None t v show ?thesis
              by (simp add: CheckLoggedIn_def ConfirmPassword_def mw_defs)
          next
            case g: (Inr user)
            show ?thesis
            proof (cases "CheckEmailConfirmation userService (Ctx (req s)) (Email user)")
              case None
              with assms h x k p \<open>perr = None\<close> t v g show ?thesis
                by (simp add: CheckLoggedIn_def ConfirmPassword_def mw_defs)
            next
              case (Some err)
              with assms h x k p \<open>perr = None\<close> t v g show ?thesis
                by (simp add: CheckLoggedIn_def ConfirmPassword_def mw_defs)
            qed
          qed
        qed
      qed
    qed
  qed
qed

theorem variants_differ_only_by_email_check_witness:
  "(\<exists>r'. CheckLoggedIn env_no_key (injector sessions_live users_unconfirmed)
           (fresh request_bearer) = Inr r'
        \<and> map (\<lambda>(code, body). (code, Status body, Title body)) (sent r') =
            [(500, 500, ''Internal Server Error'')]
        \<and> calls r' = [CallExtractToken, CallLoadPublicKey ''keys/public.pem'']
        \<and> served r' = [] \<and> req r' = request_bearer)
   \<and> CheckLoggedIn env_sample (injector sessions_live users_unconfirmed)
        (fresh request_bearer) =
      Inr \<lparr>req = request_bearer,
           sent = [(403, \<lparr>Status = 403, Title = ''Email Not Confirmed'',
              Detail = ''You need to confirm your email address before accessing this resource.''\<rparr>)],
           served = [],
           calls = [CallExtractToken, CallLoadPublicKey ''keys/public.pem'',
                    CallParse ''abc.def.ghi'', CallGetUser ''abc.def.ghi'',
                    CallCheckEmailConfirmation ''alice@example.com'']\<rparr>
   \<and> CheckLoggedIn env_sample (injector sessions_live users_confirmed)
        (fresh request_bearer) =
      Inr \<lparr>req = request_bearer\<lparr>Ctx := (Ctx request_bearer)(UserKey \<mapsto> session_alice)\<rparr>,
           sent = [],
           served = [request_bearer\<lparr>Ctx := (Ctx request_bearer)(UserKey \<mapsto> session_alice)\<rparr>],
           calls = [CallExtractToken, CallLoadPublicKey ''keys/public.pem'',
                    CallParse ''abc.def.ghi'', CallGetUser ''abc.def.ghi'',
                    CallCheckEmailConfirmation ''alice@example.com'']\<rparr>"
proof (intro conjI)
  have rejected: "ConfirmPassword env_no_key (injector sessions_live users_unconfirmed)
      (fresh request_bearer) =
      Inr \<lparr>req = request_bearer,
           sent = [(500, \<lparr>Status = 500, Title = ''Internal Server Error'',
                   Detail = ''Failed to verify your account.''\<rparr>)],
           served = [], calls = [CallExtractToken, CallLoadPublicKey ''keys/public.pem'']\<rparr>"
    by (simp add: ConfirmPassword_def mw_defs sample_defs)
  show "\<exists>r'. CheckLoggedIn env_no_key (injector sessions_live users_unconfirmed)
           (fresh request_bearer) = Inr r'
        \<and> map (\<lambda>(code, body). (code, Status body, Title body)) (sent r') =
            [(500, 500, ''Internal Server Error'')]
        \<and> calls r' = [CallExtractToken, CallLoadPublicKey ''keys/public.pem'']
        \<and> served r' = [] \<and> req r' = request_bearer"
    using variants_differ_only_by_email_check
      [where i = "injector sessions_live users_unconfirmed" and userSession = sessions_live
        and userService = users_unconfirmed and s = "fresh request_bearer" and env = env_no_key]
      rejected
    by (simp add: injector_def fresh_def)
next
  have admitted: "ConfirmPassword env_sample (injector sessions_live users_unconfirmed)
      (fresh request_bearer) =
      Inr \<lparr>req = request_bearer\<lparr>Ctx := (Ctx request_bearer)(UserKey \<mapsto> session_alice)\<rparr>,
           sent = [],
           served = [request_bearer\<lparr>Ctx := (Ctx request_bearer)(UserKey \<mapsto> session_alice)\<rparr>],
           calls = [CallExtractToken, CallLoadPublicKey ''keys/public.pem'',
                    CallParse ''abc.def.ghi'', CallGetUser ''abc.def.ghi'']\<rparr>"
    by (simp add: ConfirmPassword_def mw_defs sample_defs)
  show "CheckLoggedIn env_sample (injector sessions_live users_unconfirmed)
        (fresh request_bearer) =
      Inr \<lparr>req = request_bearer,
           sent = [(403, \<lparr>Status = 403, Title = ''Email Not Confirmed'',
              Detail = ''You need to confirm your email address before accessing this resource.''\<rparr>)],
           served = [],
           calls = [CallExtractToken, CallLoadPublicKey ''keys/public.pem'',
                    CallParse ''abc.def.ghi'', CallGetUser ''abc.def.ghi'',
                    CallCheckEmailConfirmation ''alice@example.com'']\<rparr>"
    using variants_differ_only_by_email_check
      [where i = "injector sessions_live users_unconfirmed" and userSession = sessions_live
        and userService = users_unconfirmed and s = "fresh request_bearer" and env = env_sample]
      admitted
    by (simp add: injector_def fresh_def request_bearer_def users_unconfirmed_def
        session_alice_def)
next
  have admitted: "ConfirmPassword env_sample (injector sessions_live users_confirmed)
      (fresh request_bearer) =
      Inr \<lparr>req = request_bearer\<lparr>Ctx := (Ctx request_bearer)(UserKey \<mapsto> session_alice)\<rparr>,
           sent = [],
           served = [request_bearer\<lparr>Ctx := (Ctx request_bearer)(UserKey \<mapsto> session_alice)\<rparr>],
           calls = [CallExtractToken, CallLoadPublicKey ''keys/public.pem'',
                    CallParse ''abc.def.ghi'', CallGetUser ''abc.def.ghi'']\<rparr>"
    by (simp add: ConfirmPassword_def mw_defs sample_defs)
  show "CheckLoggedIn env_sample (injector sessions_live users_confirmed)
        (fresh request_bearer) =
      Inr \<lparr>req = request_bearer\<lparr>Ctx := (Ctx request_bearer)(UserKey \<mapsto> session_alice)\<rparr>,
           sent = [],
           served = [request_bearer\<lparr>Ctx := (Ctx request_bearer)(UserKey \<mapsto> session_alice)\<rparr>],
           calls = [CallExtractToken, CallLoadPublicKey ''keys/public.pem'',
                    CallParse ''abc.def.ghi'', CallGetUser ''abc.def.ghi'',
                    CallCheckEmailConfirmation ''alice@example.com'']\<rparr>"
    using variants_differ_only_by_email_check
      [where i = "injector sessions_live users_confirmed" and userSession = sessions_live
        and userService = users_confirmed and s = "fresh request_bearer" and env = env_sample]
      admitted
    by (simp add: injector_def fresh_def request_bearer_def users_confirmed_def
        session_alice_def)
qed

text \<open>
  C7. A request with no Authorization header (\<^verbatim>\<open>Header.Get\<close> gives the empty string) is
  answered by both middlewares with status 401 and the title "Access Denied". No
  collaborator has been called by then (no token extraction, no key loading, no parsing,
  no session lookup: \<open>calls\<close> is unchanged, and the environment is arbitrary), the protected
  handler is not invoked (\<open>served\<close> is unchanged) and the request is left as it was. The
  injector is one that provides the services the middleware resolves first.
\<close>

theorem absent_header_rejected:
  assumes "provided_UserSessionService i = Some userSession"
      and "provided_UserService i = Some userService"
      and "Header_Get (Header (req s)) ''Authorization'' = ''''"
  shows "\<exists>r. CheckLoggedIn env i s = Inr r \<and> ConfirmPassword env i s = Inr r
           \<and> sent r = sent s @ [(401, \<lparr>Status = 401, Title = ''Access Denied'',
                 Detail = ''You need to be logged in to access this resource.''\<rparr>)]
           \<and> calls r = calls s \<and> served r = served s \<and> req r = req s"
  using assms by (simp add: CheckLoggedIn_def ConfirmPassword_def mw_defs)

theorem absent_header_rejected_witness:
  "CheckLoggedIn env_sample (injector sessions_live users_confirmed) (fresh request_anonymous) =
     Inr \<lparr>req = request_anonymous,
          sent = [(401, \<lparr>Status = 401, Title = ''Access Denied'',
                  Detail = ''You need to be logged in to access this resource.''\<rparr>)],
          served = [], calls = []\<rparr>
   \<and> ConfirmPassword env_sample (injector sessions_live users_confirmed) (fresh request_anonymous) =
     Inr \<lparr>req = request_anonymous,
          sent = [(401, \<lparr>Status = 401, Title = ''Access Denied'',
                  Detail = ''You need to be logged in to access this resource.''\<rparr>)],
          served = [], calls = []\<rparr>"
  using absent_header_rejected [of "injector sessions_live users_confirmed" sessions_live
      users_confirmed "fresh request_anonymous" env_sample]
  by (auto simp add: injector_def fresh_def request_anonymous_def Header_Get_def)

text \<open>
  C8. When loading the public key fails, both middlewares answer with status 500 and the
  title "Internal Server Error". The token is not parsed (with a default key or any
  other), the session is not looked up and the protected handler is not invoked: the
  calls made are the token extraction and the key loading only.
\<close>

theorem key_load_failure_internal_error:
  assumes "provided_UserSessionService i = Some userSession"
      and "provided_UserService i = Some userService"
      and "Header_Get (Header (req s)) ''Authorization'' \<noteq> ''''"
      and "ExtractToken env (req s) = Inr tokenString"
      and "LoadPublicKey env (SecretKeyPath env) = Inl err"
  shows "\<exists>r r'. CheckLoggedIn env i s = Inr r \<and> ConfirmPassword env i s = Inr r'
           \<and> sent r = sent s @ [(500, \<lparr>Status = 500, Title = ''Internal Server Error'',
                 Detail = ''Failed to load public key for token verification.''\<rparr>)]
           \<and> sent r' = sent s @ [(500, \<lparr>Status = 500, Title = ''Internal Server Error'',
                 Detail = ''Failed to verify your account.''\<rparr>)]
           \<and> calls r = calls s @ [CallExtractToken, CallLoadPublicKey (SecretKeyPath env)]
           \<and> calls r' = calls r
           \<and> served r = served s \<and> served r' = served s \<and> req r = req s \<and> req r' = req s"
  using CheckLoggedIn_key_failure [OF assms] ConfirmPassword_key_failure [OF assms(1,3,4,5)]
  by simp

theorem key_load_failure_internal_error_witness:
  "CheckLoggedIn env_no_key (injector sessions_live users_confirmed) (fresh request_bearer) =
     Inr \<lparr>req = request_bearer,
          sent = [(500, \<lparr>Status = 500, Title = ''Internal Server Error'',
                  Detail = ''Failed to load public key for token verification.''\<rparr>)],
          served = [], calls = [CallExtractToken, CallLoadPublicKey ''keys/public.pem'']\<rparr>
   \<and> ConfirmPassword env_no_key (injector sessions_live users_confirmed) (fresh request_bearer) =
     Inr \<lparr>req = request_bearer,
          sent = [(500, \<lparr>Status = 500, Title = ''Internal Server Error'',
                  Detail = ''Failed to verify your account.''\<rparr>)],
          served = [], calls = [CallExtractToken, CallLoadPublicKey ''keys/public.pem'']\<rparr>"
  using key_load_failure_internal_error [of "injector sessions_live users_confirmed"
      sessions_live users_confirmed "fresh request_bearer" env_no_key "''abc.def.ghi''"
      "External ''open keys/public.pem: no such file or directory''"]
  by (auto simp add: injector_def fresh_def request_bearer_def Header_Get_def env_no_key_def
      env_sample_def)

text \<open>
  C9. A request that passes every check of a middleware (header present, token extracted
  and parsed as valid, session found and, in \<open>CheckLoggedIn\<close>, email confirmation check
  passed) has the session put into its context under \<open>UserKey\<close>, and the protected
  handler is invoked once, with that request; no response is written by the middleware.
  Whatever the collaborators answer, a run of either middleware returns (the services
  being provided, it does not panic) and ends in one of two ways:
  one response is written, the handler is not invoked and the request is left as it was
  (nothing is attached), or no response is written and the handler is invoked once with
  the request that carries a session under \<open>UserKey\<close>.
\<close>

theorem admitted_once_with_session_else_untouched:
  assumes "provided_UserSessionService i = Some userSession"
      and "provided_UserService i = Some userService"
  shows "(Header_Get (Header (req s)) ''Authorization'' \<noteq> ''''
            \<and> ExtractToken env (req s) = Inr tokenString
            \<and> LoadPublicKey env (SecretKeyPath env) = Inr publicKey
            \<and> jwt_Parse env tokenString (keyFunc publicKey) = (Some token, None)
            \<and> Valid token
            \<and> GetUser userSession (Ctx (req s)) tokenString = Inr user
          \<longrightarrow> (\<exists>r. ConfirmPassword env i s = Inr r
                 \<and> Ctx (req r) UserKey = Some user
                 \<and> req r = (req s)\<lparr>Ctx := (Ctx (req s))(UserKey \<mapsto> user)\<rparr>
                 \<and> served r = served s @ [req r] \<and> sent r = sent s)
              \<and> (CheckEmailConfirmation userService (Ctx (req s)) (Email user) = None
                 \<longrightarrow> (\<exists>r. CheckLoggedIn env i s = Inr r
                        \<and> Ctx (req r) UserKey = Some user
                        \<and> req r = (req s)\<lparr>Ctx := (Ctx (req s))(UserKey \<mapsto> user)\<rparr>
                        \<and> served r = served s @ [req r] \<and> sent r = sent s)))
       \<and> (\<exists>r. CheckLoggedIn env i s = Inr r) \<and> (\<exists>r. ConfirmPassword env i s = Inr r)
       \<and> (\<forall>r. CheckLoggedIn env i s = Inr r \<or> ConfirmPassword env i s = Inr r
          \<longrightarrow> (served r = served s \<and> req r = req s \<and> (\<exists>answer. sent r = sent s @ [answer]))
              \<or> (sent r = sent s \<and> served r = served s @ [req r]
                  \<and> (\<exists>user. req r = (req s)\<lparr>Ctx := (Ctx (req s))(UserKey \<mapsto> user)\<rparr>)))"
proof (intro conjI impI allI)
  show "\<exists>r. CheckLoggedIn env i s = Inr r"
    using assms by (rule CheckLoggedIn_returns)
  show "\<exists>r. ConfirmPassword env i s = Inr r"
    using assms(1) by (rule ConfirmPassword_returns)
next
  assume a: "Header_Get (Header (req s)) ''Authorization'' \<noteq> ''''
      \<and> ExtractToken env (req s) = Inr tokenString
      \<and> LoadPublicKey env (SecretKeyPath env) = Inr publicKey
      \<and> jwt_Parse env tokenString (keyFunc publicKey) = (Some token, None)
      \<and> Valid token
      \<and> GetUser userSession (Ctx (req s)) tokenString = Inr user"
  then have h: "Header_Get (Header (req s)) ''Authorization'' \<noteq> ''''"
    and x: "ExtractToken env (req s) = Inr tokenString"
    and k: "LoadPublicKey env (SecretKeyPath env) = Inr publicKey"
    and p: "jwt_Parse env tokenString (keyFunc publicKey) = (Some token, None)"
    and v: "Valid token"
    and g: "GetUser userSession (Ctx (req s)) tokenString = Inr user"
    by simp_all
  show "\<exists>r. ConfirmPassword env i s = Inr r
      \<and> Ctx (req r) UserKey = Some user
      \<and> req r = (req s)\<lparr>Ctx := (Ctx (req s))(UserKey \<mapsto> user)\<rparr>
      \<and> served r = served s @ [req r] \<and> sent r = sent s"
    using ConfirmPassword_admit [OF assms(1) h x k p v g] by simp
  assume c: "CheckEmailConfirmation userService (Ctx (req s)) (Email user) = None"
  show "\<exists>r. CheckLoggedIn env i s = Inr r
      \<and> Ctx (req r) UserKey = Some user
      \<and> req r = (req s)\<lparr>Ctx := (Ctx (req s))(UserKey \<mapsto> user)\<rparr>
      \<and> served r = served s @ [req r] \<and> sent r = sent s"
    using CheckLoggedIn_admit [OF assms h x k p v g c] by simp
next
  fix r
  assume "CheckLoggedIn env i s = Inr r \<or> ConfirmPassword env i s = Inr r"
  then show "(served r = served s \<and> req r = req s \<and> (\<exists>answer. sent r = sent s @ [answer]))
      \<or> (sent r = sent s \<and> served r = served s @ [req r]
          \<and> (\<exists>user. req r = (req s)\<lparr>Ctx := (Ctx (req s))(UserKey \<mapsto> user)\<rparr>))"
    using CheckLoggedIn_outcome ConfirmPassword_outcome by blast
qed

theorem admitted_once_with_session_else_untouched_witness:
  "(\<exists>r. ConfirmPassword env_sample (injector sessions_live users_confirmed)
          (fresh request_bearer) = Inr r
       \<and> Ctx (req r) UserKey = Some session_alice
       \<and> req r = request_bearer\<lparr>Ctx := (Ctx request_bearer)(UserKey \<mapsto> session_alice)\<rparr>
       \<and> served r = [req r] \<and> sent r = [])
   \<and> (\<exists>r. CheckLoggedIn env_sample (injector sessions_live users_confirmed)
          (fresh request_bearer) = Inr r
       \<and> Ctx (req r) UserKey = Some session_alice
       \<and> req r = request_bearer\<lparr>Ctx := (Ctx request_bearer)(UserKey \<mapsto> session_alice)\<rparr>
       \<and> served r = [req r] \<and> sent r = [])
   \<and> (\<exists>r answer. CheckLoggedIn env_sample (injector sessions_live users_unconfirmed)
          (fresh request_bearer) = Inr r
       \<and> served r = [] \<and> req r = request_bearer \<and> sent r = [answer])"
proof (intro conjI)
  note inst = admitted_once_with_session_else_untouched
    [where i = "injector sessions_live users_confirmed" and userSession = sessions_live
      and userService = users_confirmed and s = "fresh request_bearer" and env = env_sample
      and tokenString = "''abc.def.ghi''" and publicKey = "PublicKey 3 5"
      and token = "(token_es256 ''abc.def.ghi'')\<lparr>Valid := True\<rparr>" and user = session_alice]
  show "\<exists>r. ConfirmPassword env_sample (injector sessions_live users_confirmed)
          (fresh request_bearer) = Inr r
       \<and> Ctx (req r) UserKey = Some session_alice
       \<and> req r = request_bearer\<lparr>Ctx := (Ctx request_bearer)(UserKey \<mapsto> session_alice)\<rparr>
       \<and> served r = [req r] \<and> sent r = []"
    using inst by (auto simp add: sample_defs)
  show "\<exists>r. CheckLoggedIn env_sample (injector sessions_live users_confirmed)
          (fresh request_bearer) = Inr r
       \<and> Ctx (req r) UserKey = Some session_alice
       \<and> req r = request_bearer\<lparr>Ctx := (Ctx request_bearer)(UserKey \<mapsto> session_alice)\<rparr>
       \<and> served r = [req r] \<and> sent r = []"
    using inst by (auto simp add: sample_defs)
  have run: "CheckLoggedIn env_sample (injector sessions_live users_unconfirmed)
      (fresh request_bearer) =
      Inr \<lparr>req = request_bearer,
           sent = [(403, \<lparr>Status = 403, Title = ''Email Not Confirmed'',
              Detail = ''You need to confirm your email address before accessing this resource.''\<rparr>)],
           served = [],
           calls = [CallExtractToken, CallLoadPublicKey ''keys/public.pem'',
                    CallParse ''abc.def.ghi'', CallGetUser ''abc.def.ghi'',
                    CallCheckEmailConfirmation ''alice@example.com'']\<rparr>"
    by (simp add: CheckLoggedIn_def mw_defs sample_defs)
  show "\<exists>r answer. CheckLoggedIn env_sample (injector sessions_live users_unconfirmed)
          (fresh request_bearer) = Inr r
       \<and> served r = [] \<and> req r = request_bearer \<and> sent r = [answer]"
    using admitted_once_with_session_else_untouched
      [where i = "injector sessions_live users_unconfirmed" and userSession = sessions_live
        and userService = users_unconfirmed and s = "fresh request_bearer" and env = env_sample]
      run
    by (simp add: injector_def fresh_def)
qed

section \<open>Claims about the token codec and the upload client\<close>

text \<open>
  C4. For the codec modelled from the spec, with a signature scheme whose check accepts
  what its sign produces: a token issued at time \<open>now\<close> for a subject and a validity,
  verified at any time \<open>t\<close> strictly before its expiry \<open>now + validity\<close>, gives the
  subject back.
\<close>

theorem verify_issue_roundtrip:
  assumes "\<forall>payload. check codec payload (sign codec payload)"
      and "t < expiry (Issue codec now subjectID validity)"
  shows "Verify codec t (Issue codec now subjectID validity) = Inr subjectID"
  using assms by (simp add: Verify_def Issue_def)

theorem verify_issue_roundtrip_witness:
  "Verify codec_sample 5399 (Issue codec_sample 1800 ''7d444840-9dc0-11d1-b245-5ffdce74fad2'' 3600)
     = Inr ''7d444840-9dc0-11d1-b245-5ffdce74fad2''
   \<and> expiry (Issue codec_sample 1800 ''7d444840-9dc0-11d1-b245-5ffdce74fad2'' 3600) = 5400"
  using verify_issue_roundtrip [of codec_sample 5399 1800
      "''7d444840-9dc0-11d1-b245-5ffdce74fad2''" 3600]
  by (simp add: codec_sample_def Issue_def)

text \<open>
  C10. \<open>UploadImage\<close> reads \<^verbatim>\<open>Variants[0]\<close> without checking the length: when every
  step before succeeds, the status is 200 and the decoded response has \<open>Success\<close> true
  and no variant, the index is out of range and the function panics instead of
  returning a URL or an error.
\<close>

theorem upload_without_variants_panics:
  assumes "image_Open io = None"
      and "writer_CreateFormFile io = None"
      and "io_Copy io = None"
      and "writer_Close io = None"
      and "http_NewRequest io = None"
      and "client_Do io = Inr resp"
      and "Body resp = Inr respBody"
      and "StatusCode resp = 200"
      and "jsoniter_Unmarshal io respBody = Inr cloudflareResp"
      and "Success cloudflareResp"
      and "Variants (Result cloudflareResp) = []"
  shows "UploadImage io = Inl (IndexOutOfRange 0 0)"
  using assms by (simp add: UploadImage_def slice_index_def StatusOK_def)

theorem upload_without_variants_panics_witness:
  "Success response_no_variants \<and> Variants (Result response_no_variants) = []
   \<and> UploadImage upload_sample = Inl (IndexOutOfRange 0 0)"
  using upload_without_variants_panics [of upload_sample
      "\<lparr>StatusCode = 200, Body = Inr ''{success: true, result: {variants: []}}''\<rparr>"
      "''{success: true, result: {variants: []}}''" response_no_variants]
  by (simp add: upload_sample_def response_no_variants_def)

end
